theory Spec2Isabelle
  imports Main
begin

section \<open>The database of the payment gateway backend\<close>

text \<open>
  The backend keeps its state in one SQLite database (\<^verbatim>\<open>database/db.ts\<close>,
  \<^verbatim>\<open>initializeDatabase\<close>). Every table is a list of rows in rowid order. Columns
  that SQLite fills by \<^verbatim>\<open>DEFAULT (strftime('%s','now'))\<close> (\<^verbatim>\<open>created_at\<close> of merchants,
  webhook configs and deliveries, \<^verbatim>\<open>indexed_at\<close>, \<^verbatim>\<open>last_indexed_at\<close>) are bookkeeping
  that no statement of the program reads in a condition; they are left out of the rows.
\<close>

type_synonym address = string
type_synonym payment_id = string

text \<open>\<^verbatim>\<open>enum PaymentStatus\<close> of \<^verbatim>\<open>types.ts\<close>.\<close>

datatype PaymentStatus = Pending | Completed | Expired | Refunded | Cancelled

text \<open>
  \<^verbatim>\<open>total_payments_received\<close> is a TEXT column. \<open>SqlInteger i\<close> is the decimal text
  of the integer \<open>i\<close>. The statement that adds to the column computes
  \<^verbatim>\<open>CAST(total_payments_received AS INTEGER) + ?\<close> in SQLite's 64-bit integers; when
  the sum (or the amount) leaves that range SQLite continues in floating point and
  stores the text of a floating-point number. \<open>SqlReal p\<close> is such a text, \<open>p\<close> the
  integer that the next \<^verbatim>\<open>CAST(... AS INTEGER)\<close> reads from it (the integer prefix
  of the text). Which prefix the floating-point text of a sum has is a matter of
  SQLite's number formatting; it is the parameter \<open>prefix\<close> of \<open>sqlite_add\<close>.
\<close>

datatype sql_number = SqlInteger int | SqlReal int

definition INT64_MAX :: int where
  "INT64_MAX = 9223372036854775807"

definition cast_integer :: "sql_number \<Rightarrow> int" where
  "cast_integer t = (case t of SqlInteger i \<Rightarrow> i | SqlReal p \<Rightarrow> p)"

definition sqlite_add :: "(int \<Rightarrow> nat \<Rightarrow> int) \<Rightarrow> sql_number \<Rightarrow> nat \<Rightarrow> sql_number" where
  "sqlite_add prefix t n =
     (let i = cast_integer t in
      if int n \<le> INT64_MAX \<and> i + int n \<le> INT64_MAX then SqlInteger (i + int n)
      else SqlReal (prefix i n))"

text \<open>
  \<^verbatim>\<open>Number(x)\<close> for a non-negative bigint \<open>x\<close>: the nearest IEEE double, ties to the
  even significand. Below \<open>2^53\<close> the conversion is exact; above, the value keeps its
  53 leading bits. (The arguments converted here are the contract's \<^verbatim>\<open>uint256\<close>,
  far below the range where a double overflows.)
\<close>

fun bit_length :: "nat \<Rightarrow> nat" where
  "bit_length n = (if n = 0 then 0 else Suc (bit_length (n div 2)))"

definition Number :: "nat \<Rightarrow> int" where
  "Number n =
     (if n < 2 ^ 53 then int n
      else
        let e = bit_length n - 53; q = n div 2 ^ e; r = n mod 2 ^ e in
        if 2 * r > 2 ^ e \<or> (2 * r = 2 ^ e \<and> odd q) then int ((q + 1) * 2 ^ e)
        else int (q * 2 ^ e))"

record merchant_row =
  address :: address
  business_name :: string
  is_active :: bool
  registered_at :: int
  total_payments_received :: sql_number

record payment_row =
  payment_id :: payment_id
  merchant :: address
  token_address :: address
  amount :: nat
  expiry_timestamp :: int
  status :: PaymentStatus
  created_at :: int
  payer :: "address option"
  paid_at :: "int option"
  platform_fee :: "nat option"
  block_number :: int
  transaction_hash :: string

record webhook_config =
  wc_id :: nat
  merchant_address :: address
  webhook_url :: string
  secret :: string
  wc_is_active :: bool

text \<open>The payload objects that the indexer hands to \<^verbatim>\<open>triggerWebhook\<close>: a list of
  fields in the order of the object literal. \<open>JBigint n\<close> is the decimal string that
  \<^verbatim>\<open>toString()\<close> gives for the bigint \<open>n\<close>.\<close>

datatype json = JString string | JNumber int | JBigint nat

type_synonym payload_obj = "(string \<times> json) list"

datatype delivery_status = StPending | StSuccess | StFailed

record delivery_row =
  wd_id :: nat
  webhook_config_id :: nat
  wd_payment_id :: payment_id
  event_type :: string
  payload :: payload_obj
  wd_status :: delivery_status
  attempts :: int
  last_attempt_at :: "int option"
  next_retry_at :: "int option"

text \<open>The decoded contract events (\<^verbatim>\<open>PAYMENT_GATEWAY_ABI\<close>), arguments in the order of
  the ABI. Amounts, timestamps and the expiry are the contract's unsigned integers,
  decoded as bigints.\<close>

datatype event =
    MerchantRegistered address string nat
  | MerchantDeactivated address nat
  | MerchantReactivated address nat
  | PaymentIntentCreated payment_id address address nat nat
  | PaymentCompleted payment_id address address nat nat nat
  | PaymentRefunded payment_id address address nat nat
  | PaymentExpired payment_id nat
  | PaymentCancelled payment_id address nat

record event_log_row =
  el_id :: nat
  el_block_number :: int
  el_transaction_hash :: string
  el_event :: event
  el_timestamp :: int

text \<open>
  The database. \<open>indexer_state\<close> is the singleton row of that table (\<open>None\<close> before
  the first write). The three \<open>_seq\<close> fields are the \<^verbatim>\<open>sqlite_sequence\<close> entries of the
  AUTOINCREMENT tables. \<open>foreign_keys\<close> is the connection's foreign-key enforcement:
  the source never sets the pragma, so the value is the driver's default and every
  result below is stated for both values.
\<close>

record db =
  merchants :: "merchant_row list"
  payment_intents :: "payment_row list"
  webhook_configs :: "webhook_config list"
  webhook_deliveries :: "delivery_row list"
  indexer_state :: "int option"
  event_logs :: "event_log_row list"
  webhook_configs_seq :: nat
  webhook_deliveries_seq :: nat
  event_logs_seq :: nat
  foreign_keys :: bool

definition initial_db :: "bool \<Rightarrow> db" where
  "initial_db fk =
     \<lparr> merchants = [], payment_intents = [], webhook_configs = [],
       webhook_deliveries = [], indexer_state = None, event_logs = [],
       webhook_configs_seq = 0, webhook_deliveries_seq = 0, event_logs_seq = 0,
       foreign_keys = fk \<rparr>"

datatype error = SqliteConstraintError | RpcError | RangeError

section \<open>The outside world\<close>

text \<open>
  What the program reads from outside during one operation: the outcome of the HTTP
  POST for a delivery (\<open>Threw\<close> is anything thrown inside the \<^verbatim>\<open>try\<close> block of
  \<^verbatim>\<open>sendWebhook\<close>: network error, timeout, axios rejecting a status), the clock
  read while that delivery is handled, the answers of the RPC provider, and the
  integer prefix of the text SQLite stores for a floating-point sum (see
  \<open>sqlite_add\<close>).
\<close>

datatype http_result = Response int | Threw

datatype block_result = Block int | NoBlock | BlockFailed

record raw_log =
  log_block_number :: int
  log_transaction_hash :: string
  parsed :: "event option"

record env =
  http_post :: "nat \<Rightarrow> http_result"
  date_now :: "nat \<Rightarrow> int"
  getBlockNumber :: "int option"
  getLogs :: "int \<Rightarrow> int \<Rightarrow> raw_log list option"
  getBlock :: "int \<Rightarrow> block_result"
  clock :: int
  real_text_prefix :: "int \<Rightarrow> nat \<Rightarrow> int"

section \<open>The webhook service\<close>

definition MAX_RETRY_ATTEMPTS :: int where
  "MAX_RETRY_ATTEMPTS = 5"

definition RETRY_DELAYS :: "int list" where
  "RETRY_DELAYS = [60, 300, 900, 3600, 7200]"

text \<open>\<^verbatim>\<open>RETRY_DELAYS[attempts - 1] || RETRY_DELAYS[RETRY_DELAYS.length - 1]\<close>: an index
  outside the array reads \<^verbatim>\<open>undefined\<close>, which is falsy, as is an entry 0.\<close>

definition nextRetryDelay :: "int \<Rightarrow> int" where
  "nextRetryDelay n =
     (let i = n - 1 in
      if 0 \<le> i \<and> i < int (length RETRY_DELAYS) \<and> RETRY_DELAYS ! nat i \<noteq> 0
      then RETRY_DELAYS ! nat i
      else RETRY_DELAYS ! (length RETRY_DELAYS - 1))"

text \<open>\<^verbatim>\<open>createWebhookDelivery\<close>: a plain INSERT; status, attempts and the two
  timestamps take their column defaults. With foreign keys enforced the insert
  throws unless the config and the payment exist.\<close>

definition createWebhookDelivery ::
  "nat \<Rightarrow> payment_id \<Rightarrow> string \<Rightarrow> payload_obj \<Rightarrow> db \<Rightarrow> error + (nat \<times> db)" where
  "createWebhookDelivery webhookConfigId paymentId eventType pl d =
     (if foreign_keys d \<and>
         \<not> (webhookConfigId \<in> set (map wc_id (webhook_configs d)) \<and>
            paymentId \<in> set (map payment_id (payment_intents d)))
      then Inl SqliteConstraintError
      else
        let newId = Suc (webhook_deliveries_seq d) in
        Inr (newId,
          d\<lparr> webhook_deliveries := webhook_deliveries d @
                [\<lparr> wd_id = newId, webhook_config_id = webhookConfigId,
                   wd_payment_id = paymentId, event_type = eventType, payload = pl,
                   wd_status = StPending, attempts = 0, last_attempt_at = None,
                   next_retry_at = None \<rparr>],
             webhook_deliveries_seq := newId \<rparr>))"

text \<open>The three UPDATE statements of \<^verbatim>\<open>sendWebhook\<close>, each \<^verbatim>\<open>WHERE id = ?\<close>.\<close>

definition mark_success :: "int \<Rightarrow> nat \<Rightarrow> delivery_row list \<Rightarrow> delivery_row list" where
  "mark_success now deliveryId rows =
     map (\<lambda>r. if wd_id r = deliveryId
               then r\<lparr> wd_status := StSuccess, attempts := attempts r + 1,
                       last_attempt_at := Some now \<rparr>
               else r) rows"

definition mark_failed :: "int \<Rightarrow> int \<Rightarrow> nat \<Rightarrow> delivery_row list \<Rightarrow> delivery_row list" where
  "mark_failed n now deliveryId rows =
     map (\<lambda>r. if wd_id r = deliveryId
               then r\<lparr> wd_status := StFailed, attempts := n, last_attempt_at := Some now \<rparr>
               else r) rows"

definition schedule_retry ::
  "int \<Rightarrow> int \<Rightarrow> int \<Rightarrow> nat \<Rightarrow> delivery_row list \<Rightarrow> delivery_row list" where
  "schedule_retry n now nextRetryAt deliveryId rows =
     map (\<lambda>r. if wd_id r = deliveryId
               then r\<lparr> attempts := n, last_attempt_at := Some now,
                       next_retry_at := Some nextRetryAt \<rparr>
               else r) rows"

text \<open>The \<^verbatim>\<open>catch\<close> block of \<^verbatim>\<open>sendWebhook\<close>; \<open>dl\<close> is the row read at the start.\<close>

definition send_failed :: "env \<Rightarrow> delivery_row \<Rightarrow> db \<Rightarrow> db" where
  "send_failed e dl d =
     (let n = attempts dl + 1; now = date_now e (wd_id dl) in
      if n \<ge> MAX_RETRY_ATTEMPTS
      then d\<lparr> webhook_deliveries := mark_failed n now (wd_id dl) (webhook_deliveries d) \<rparr>
      else
        let nextRetryAt = now + nextRetryDelay n in
        d\<lparr> webhook_deliveries :=
             schedule_retry n now nextRetryAt (wd_id dl) (webhook_deliveries d) \<rparr>)"

text \<open>What \<^verbatim>\<open>sendWebhook\<close> does once \<^verbatim>\<open>await axios.post(...)\<close> has settled: the
  success UPDATE, or the \<^verbatim>\<open>catch\<close> block. \<open>dl\<close> is the row as it was read before
  the POST; the table is not read again.\<close>

definition send_finish :: "env \<Rightarrow> nat \<Rightarrow> delivery_row \<Rightarrow> db \<Rightarrow> db" where
  "send_finish e deliveryId dl d =
     (case http_post e deliveryId of
        Response s \<Rightarrow>
          if 200 \<le> s \<and> s < 300
          then d\<lparr> webhook_deliveries :=
                  mark_success (date_now e deliveryId) deliveryId (webhook_deliveries d) \<rparr>
          else send_failed e dl d
      | Threw \<Rightarrow> send_failed e dl d)"

text \<open>\<^verbatim>\<open>sendWebhook\<close>: the SELECT joins the delivery with its config; without a row
  the function returns at once. Here the POST settles before anything else touches
  the database.\<close>

definition sendWebhook :: "env \<Rightarrow> nat \<Rightarrow> db \<Rightarrow> db" where
  "sendWebhook e deliveryId d =
     (case find (\<lambda>r. wd_id r = deliveryId) (webhook_deliveries d) of
        None \<Rightarrow> d
      | Some dl \<Rightarrow>
          (case find (\<lambda>c. wc_id c = webhook_config_id dl) (webhook_configs d) of
             None \<Rightarrow> d
           | Some c \<Rightarrow> send_finish e deliveryId dl d))"

text \<open>\<^verbatim>\<open>triggerWebhook\<close>: the active configs of the merchant are selected first; then
  each gets a delivery row, which is sent at once. An insert that throws ends the
  loop and the exception leaves the function.\<close>

fun trigger_loop ::
  "env \<Rightarrow> payment_id \<Rightarrow> string \<Rightarrow> payload_obj \<Rightarrow> webhook_config list \<Rightarrow> db
     \<Rightarrow> error option \<times> db" where
  "trigger_loop e paymentId eventType pl [] d = (None, d)"
| "trigger_loop e paymentId eventType pl (w # ws) d =
     (case createWebhookDelivery (wc_id w) paymentId eventType pl d of
        Inl err \<Rightarrow> (Some err, d)
      | Inr (deliveryId, d1) \<Rightarrow>
          trigger_loop e paymentId eventType pl ws (sendWebhook e deliveryId d1))"

definition triggerWebhook ::
  "env \<Rightarrow> address \<Rightarrow> payment_id \<Rightarrow> string \<Rightarrow> payload_obj \<Rightarrow> db \<Rightarrow> error option \<times> db" where
  "triggerWebhook e merchantAddress paymentId eventType pl d =
     trigger_loop e paymentId eventType pl
       (filter (\<lambda>c. merchant_address c = merchantAddress \<and> wc_is_active c)
          (webhook_configs d)) d"

text \<open>The query of \<^verbatim>\<open>startWebhookRetryWorker\<close>, and one tick of the worker.\<close>

definition due_for_retry :: "int \<Rightarrow> delivery_row \<Rightarrow> bool" where
  "due_for_retry now r =
     (wd_status r = StPending \<and>
      (case next_retry_at r of None \<Rightarrow> False | Some t \<Rightarrow> t \<le> now) \<and>
      attempts r < MAX_RETRY_ATTEMPTS)"

definition pendingRetries :: "int \<Rightarrow> db \<Rightarrow> nat list" where
  "pendingRetries now d = map wd_id (filter (due_for_retry now) (webhook_deliveries d))"

definition retry_tick :: "env \<Rightarrow> db \<Rightarrow> db" where
  "retry_tick e d = foldl (\<lambda>s i. sendWebhook e i s) d (pendingRetries (clock e) d)"



section \<open>The event indexer\<close>

text \<open>\<^verbatim>\<open>getLastIndexedBlock\<close> and \<^verbatim>\<open>updateLastIndexedBlock\<close> of \<^verbatim>\<open>db.ts\<close>.\<close>

definition getLastIndexedBlock :: "db \<Rightarrow> int" where
  "getLastIndexedBlock d = (case indexer_state d of None \<Rightarrow> 0 | Some b \<Rightarrow> b)"

definition updateLastIndexedBlock :: "int \<Rightarrow> db \<Rightarrow> db" where
  "updateLastIndexedBlock blockNumber d = d\<lparr> indexer_state := Some blockNumber \<rparr>"

text \<open>\<^verbatim>\<open>storeEventLog\<close>: a plain INSERT into \<^verbatim>\<open>event_logs\<close>, a table whose only key is
  its AUTOINCREMENT id.\<close>

definition storeEventLog :: "int \<Rightarrow> string \<Rightarrow> event \<Rightarrow> int \<Rightarrow> db \<Rightarrow> db" where
  "storeEventLog blockNumber txHash ev ts d =
     (let newId = Suc (event_logs_seq d) in
      d\<lparr> event_logs := event_logs d @
           [\<lparr> el_id = newId, el_block_number = blockNumber, el_transaction_hash = txHash,
              el_event = ev, el_timestamp = ts \<rparr>],
         event_logs_seq := newId \<rparr>)"

text \<open>\<^verbatim>\<open>INSERT OR REPLACE INTO merchants\<close>: a row with the same primary key is deleted,
  the new row is inserted.\<close>

definition handleMerchantRegistered :: "address \<Rightarrow> string \<Rightarrow> nat \<Rightarrow> db \<Rightarrow> db" where
  "handleMerchantRegistered m businessName ts d =
     d\<lparr> merchants := filter (\<lambda>r. address r \<noteq> m) (merchants d) @
          [\<lparr> address = m, business_name = businessName, is_active = True,
             registered_at = Number ts, total_payments_received = SqlInteger 0 \<rparr>] \<rparr>"

definition handleMerchantDeactivated :: "address \<Rightarrow> db \<Rightarrow> db" where
  "handleMerchantDeactivated m d =
     d\<lparr> merchants :=
          map (\<lambda>r. if address r = m then r\<lparr> is_active := False \<rparr> else r) (merchants d) \<rparr>"

definition handleMerchantReactivated :: "address \<Rightarrow> db \<Rightarrow> db" where
  "handleMerchantReactivated m d =
     d\<lparr> merchants :=
          map (\<lambda>r. if address r = m then r\<lparr> is_active := True \<rparr> else r) (merchants d) \<rparr>"

text \<open>\<^verbatim>\<open>INSERT OR REPLACE INTO payment_intents\<close>; \<^verbatim>\<open>payer\<close>, \<^verbatim>\<open>paid_at\<close> and
  \<^verbatim>\<open>platform_fee\<close> are not among the inserted columns and are NULL in the new row.
  The expiry is stored, and sent in the payload, as \<^verbatim>\<open>Number(args.expiryTimestamp)\<close>.
  With foreign keys enforced the insert throws when the merchant has no row.\<close>

definition handlePaymentIntentCreated ::
  "env \<Rightarrow> payment_id \<Rightarrow> address \<Rightarrow> address \<Rightarrow> nat \<Rightarrow> nat \<Rightarrow> int \<Rightarrow> string \<Rightarrow> int \<Rightarrow> db
     \<Rightarrow> error option \<times> db" where
  "handlePaymentIntentCreated e pid m tok amt expiry blockNumber txHash ts d =
     (if foreign_keys d \<and> m \<notin> set (map address (merchants d))
      then (Some SqliteConstraintError, d)
      else
        triggerWebhook e m pid ''payment.created''
          [(''paymentId'', JString pid), (''merchant'', JString m), (''amount'', JBigint amt),
           (''tokenAddress'', JString tok), (''expiryTimestamp'', JNumber (Number expiry)),
           (''status'', JString ''pending'')]
          (d\<lparr> payment_intents := filter (\<lambda>r. payment_id r \<noteq> pid) (payment_intents d) @
               [\<lparr> payment_id = pid, merchant = m, token_address = tok, amount = amt,
                  expiry_timestamp = Number expiry, status = Pending, created_at = ts,
                  payer = None, paid_at = None, platform_fee = None,
                  block_number = blockNumber, transaction_hash = txHash \<rparr>] \<rparr>))"

text \<open>\<^verbatim>\<open>handlePaymentCompleted\<close>: two UPDATE statements, then the webhook;
  \<^verbatim>\<open>paid_at\<close> is \<^verbatim>\<open>Number(args.timestamp)\<close>.\<close>

definition handlePaymentCompleted ::
  "env \<Rightarrow> payment_id \<Rightarrow> address \<Rightarrow> address \<Rightarrow> nat \<Rightarrow> nat \<Rightarrow> nat \<Rightarrow> db \<Rightarrow> error option \<times> db" where
  "handlePaymentCompleted e pid pyr m amt fee ts d =
     triggerWebhook e m pid ''payment.completed''
       [(''paymentId'', JString pid), (''merchant'', JString m), (''payer'', JString pyr),
        (''amount'', JBigint amt), (''platformFee'', JBigint fee),
        (''status'', JString ''completed''), (''timestamp'', JNumber (Number ts))]
       (d\<lparr> payment_intents :=
            map (\<lambda>r. if payment_id r = pid
                      then r\<lparr> status := Completed, payer := Some pyr,
                              paid_at := Some (Number ts),
                              platform_fee := Some fee \<rparr>
                      else r) (payment_intents d),
          merchants :=
            map (\<lambda>r. if address r = m
                      then r\<lparr> total_payments_received :=
                                sqlite_add (real_text_prefix e)
                                  (total_payments_received r) amt \<rparr>
                      else r) (merchants d) \<rparr>)"

text \<open>\<^verbatim>\<open>UPDATE payment_intents SET status = ? WHERE payment_id = ?\<close>, shared by the
  three handlers below.\<close>

definition set_status :: "PaymentStatus \<Rightarrow> payment_id \<Rightarrow> db \<Rightarrow> db" where
  "set_status st pid d =
     d\<lparr> payment_intents :=
          map (\<lambda>r. if payment_id r = pid then r\<lparr> status := st \<rparr> else r)
            (payment_intents d) \<rparr>"

definition handlePaymentRefunded :: "env \<Rightarrow> payment_id \<Rightarrow> nat \<Rightarrow> db \<Rightarrow> error option \<times> db" where
  "handlePaymentRefunded e pid amt d =
     (let d1 = set_status Refunded pid d in
      case find (\<lambda>r. payment_id r = pid) (payment_intents d1) of
        None \<Rightarrow> (None, d1)
      | Some p \<Rightarrow>
          triggerWebhook e (merchant p) pid ''payment.refunded''
            [(''paymentId'', JString pid), (''amount'', JBigint amt),
             (''status'', JString ''refunded'')] d1)"

definition handlePaymentExpired :: "env \<Rightarrow> payment_id \<Rightarrow> db \<Rightarrow> error option \<times> db" where
  "handlePaymentExpired e pid d =
     (let d1 = set_status Expired pid d in
      case find (\<lambda>r. payment_id r = pid) (payment_intents d1) of
        None \<Rightarrow> (None, d1)
      | Some p \<Rightarrow>
          triggerWebhook e (merchant p) pid ''payment.expired''
            [(''paymentId'', JString pid), (''status'', JString ''expired'')] d1)"

definition handlePaymentCancelled :: "env \<Rightarrow> payment_id \<Rightarrow> address \<Rightarrow> db \<Rightarrow> error option \<times> db" where
  "handlePaymentCancelled e pid m d =
     triggerWebhook e m pid ''payment.cancelled''
       [(''paymentId'', JString pid), (''status'', JString ''cancelled'')]
       (set_status Cancelled pid d)"

text \<open>The \<^verbatim>\<open>switch\<close> of \<^verbatim>\<open>handleEvent\<close>.\<close>

fun dispatch :: "env \<Rightarrow> event \<Rightarrow> int \<Rightarrow> string \<Rightarrow> int \<Rightarrow> db \<Rightarrow> error option \<times> db" where
  "dispatch e (MerchantRegistered m businessName ts) blockNumber txHash blockTs d =
     (None, handleMerchantRegistered m businessName ts d)"
| "dispatch e (MerchantDeactivated m ts) blockNumber txHash blockTs d =
     (None, handleMerchantDeactivated m d)"
| "dispatch e (MerchantReactivated m ts) blockNumber txHash blockTs d =
     (None, handleMerchantReactivated m d)"
| "dispatch e (PaymentIntentCreated pid m tok amt expiry) blockNumber txHash blockTs d =
     handlePaymentIntentCreated e pid m tok amt expiry blockNumber txHash blockTs d"
| "dispatch e (PaymentCompleted pid pyr m amt fee ts) blockNumber txHash blockTs d =
     handlePaymentCompleted e pid pyr m amt fee ts d"
| "dispatch e (PaymentRefunded pid m pyr amt ts) blockNumber txHash blockTs d =
     handlePaymentRefunded e pid amt d"
| "dispatch e (PaymentExpired pid ts) blockNumber txHash blockTs d =
     handlePaymentExpired e pid d"
| "dispatch e (PaymentCancelled pid m ts) blockNumber txHash blockTs d =
     handlePaymentCancelled e pid m d"

text \<open>\<^verbatim>\<open>handleEvent\<close>: the block's timestamp is fetched (\<^verbatim>\<open>block?.timestamp || now\<close>),
  the event is written to the log, then the handler runs. Nothing here is wrapped in
  a transaction: what was written before an exception stays written.\<close>

definition handleEvent :: "env \<Rightarrow> event \<Rightarrow> raw_log \<Rightarrow> db \<Rightarrow> error option \<times> db" where
  "handleEvent e ev lg d =
     (case getBlock e (log_block_number lg) of
        BlockFailed \<Rightarrow> (Some RpcError, d)
      | NoBlock \<Rightarrow>
          dispatch e ev (log_block_number lg) (log_transaction_hash lg) (clock e)
            (storeEventLog (log_block_number lg) (log_transaction_hash lg) ev (clock e) d)
      | Block t \<Rightarrow>
          (let ts = (if t = 0 then clock e else t) in
           dispatch e ev (log_block_number lg) (log_transaction_hash lg) ts
             (storeEventLog (log_block_number lg) (log_transaction_hash lg) ev ts d)))"

text \<open>The body of the loop of \<^verbatim>\<open>processBlockRange\<close>: a log that does not parse is
  skipped, and whatever the handler throws is caught and logged.\<close>

definition process_log :: "env \<Rightarrow> db \<Rightarrow> raw_log \<Rightarrow> db" where
  "process_log e d lg =
     (case parsed lg of None \<Rightarrow> d | Some ev \<Rightarrow> snd (handleEvent e ev lg d))"

definition processBlockRange :: "env \<Rightarrow> int \<Rightarrow> int \<Rightarrow> db \<Rightarrow> error option \<times> db" where
  "processBlockRange e fromBlock toBlock d =
     (case getLogs e fromBlock toBlock of
        None \<Rightarrow> (Some RpcError, d)
      | Some logs \<Rightarrow> (None, foldl (process_log e) d logs))"

text \<open>The batch loop of \<^verbatim>\<open>syncEvents\<close> (\<^verbatim>\<open>batchSize = 1000\<close>): an exception of a batch
  leaves the loop.\<close>

function sync_batches :: "env \<Rightarrow> int \<Rightarrow> int \<Rightarrow> db \<Rightarrow> error option \<times> db" where
  "sync_batches e fromBlock currentBlock d =
     (if fromBlock \<le> currentBlock
      then
        (let toBlock = min (fromBlock + 1000 - 1) currentBlock in
         case processBlockRange e fromBlock toBlock d of
           (Some err, d1) \<Rightarrow> (Some err, d1)
         | (None, d1) \<Rightarrow> sync_batches e (fromBlock + 1000) currentBlock d1)
      else (None, d))"
  by pat_completeness auto
termination
  by (relation "measure (\<lambda>(e, fromBlock, currentBlock, d). nat (currentBlock - fromBlock + 1))")
    auto

text \<open>\<^verbatim>\<open>syncEvents\<close>; \<open>startBlockCfg\<close> is the indexer's configured \<^verbatim>\<open>startBlock\<close>. The
  \<^verbatim>\<open>catch\<close> swallows every exception of the pass.\<close>

definition scan_start :: "int \<Rightarrow> int \<Rightarrow> db \<Rightarrow> int" where
  "scan_start startBlockCfg currentBlock d =
     (let lastIndexedBlock = getLastIndexedBlock d in
      if lastIndexedBlock = 0
      then (if startBlockCfg > 0 then startBlockCfg else currentBlock - 1000)
      else lastIndexedBlock + 1)"

text \<open>What \<^verbatim>\<open>syncEvents\<close> does with the two numbers it has read, the current height
  and the start block: from here on it is suspended at every \<^verbatim>\<open>await\<close> of the batch
  loop and does not read the checkpoint again.\<close>

definition sync_from :: "env \<Rightarrow> int \<Rightarrow> int \<Rightarrow> db \<Rightarrow> db" where
  "sync_from e currentBlock startBlock d =
     (if startBlock > currentBlock then d
      else
        (case sync_batches e startBlock currentBlock d of
           (Some err, d1) \<Rightarrow> d1
         | (None, d1) \<Rightarrow> updateLastIndexedBlock currentBlock d1))"

text \<open>A whole pass, with nothing else touching the database while it runs.\<close>

definition syncEvents :: "env \<Rightarrow> int \<Rightarrow> db \<Rightarrow> db" where
  "syncEvents e startBlockCfg d =
     (case getBlockNumber e of
        None \<Rightarrow> d
      | Some currentBlock \<Rightarrow>
          sync_from e currentBlock (scan_start startBlockCfg currentBlock d) d)"

section \<open>The operations of the running backend\<close>




section \<open>Signatures\<close>

text \<open>
  \<^verbatim>\<open>generateSignature\<close> and \<^verbatim>\<open>verifySignature\<close>. Strings are byte sequences
  (\<^verbatim>\<open>Buffer.from\<close> takes the UTF-8 bytes). Two functions of the platform are
  parameters: \<open>hmac\<close> is \<^verbatim>\<open>crypto.createHmac('sha256', secret).update(s).digest()\<close>, the
  raw digest, and \<open>stringify\<close> is \<^verbatim>\<open>JSON.stringify\<close>. The \<^verbatim>\<open>'hex'\<close> encoding
  writes two lower-case digits per byte.
\<close>

definition hex_digit :: "nat \<Rightarrow> char" where
  "hex_digit n = ''0123456789abcdef'' ! (n mod 16)"

definition hex_of_byte :: "char \<Rightarrow> string" where
  "hex_of_byte c = [hex_digit (of_char c div 16), hex_digit (of_char c mod 16)]"

definition digest_hex :: "string \<Rightarrow> string" where
  "digest_hex bytes = concat (map hex_of_byte bytes)"

definition generateSignature ::
  "(string \<Rightarrow> string \<Rightarrow> string) \<Rightarrow> ('p \<Rightarrow> string) \<Rightarrow> 'p \<Rightarrow> string \<Rightarrow> string" where
  "generateSignature hmac stringify pl sec = digest_hex (hmac sec (stringify pl))"

text \<open>\<^verbatim>\<open>crypto.timingSafeEqual\<close> as Node documents it: it throws a RangeError when
  the two buffers differ in byte length, and compares them otherwise.\<close>

definition timingSafeEqual :: "string \<Rightarrow> string \<Rightarrow> error + bool" where
  "timingSafeEqual a b = (if length a \<noteq> length b then Inl RangeError else Inr (a = b))"

definition verifySignature ::
  "(string \<Rightarrow> string \<Rightarrow> string) \<Rightarrow> ('p \<Rightarrow> string) \<Rightarrow> 'p \<Rightarrow> string \<Rightarrow> string \<Rightarrow> error + bool" where
  "verifySignature hmac stringify pl signature sec =
     timingSafeEqual signature (generateSignature hmac stringify pl sec)"

section \<open>Auxiliary notions for the statements\<close>

text \<open>The delivery attempt fails: the POST threw, or answered outside 2xx.\<close>

definition send_fails :: "env \<Rightarrow> nat \<Rightarrow> bool" where
  "send_fails e i =
     (case http_post e i of Threw \<Rightarrow> True | Response s \<Rightarrow> \<not> (200 \<le> s \<and> s < 300))"

text \<open>The block ranges that the batch loop of \<^verbatim>\<open>syncEvents\<close> visits.\<close>

function batch_ranges :: "int \<Rightarrow> int \<Rightarrow> (int \<times> int) list" where
  "batch_ranges fromBlock currentBlock =
     (if fromBlock \<le> currentBlock
      then (fromBlock, min (fromBlock + 1000 - 1) currentBlock) #
             batch_ranges (fromBlock + 1000) currentBlock
      else [])"
  by pat_completeness auto
termination
  by (relation "measure (\<lambda>(fromBlock, currentBlock). nat (currentBlock - fromBlock + 1))") auto





text \<open>What the specification asks the scheduler to select.\<close>

definition spec_due :: "int \<Rightarrow> delivery_row \<Rightarrow> bool" where
  "spec_due now r =
     (wd_status r = StPending \<and> attempts r < MAX_RETRY_ATTEMPTS \<and>
      (case next_retry_at r of None \<Rightarrow> True | Some t \<Rightarrow> t \<le> now))"

text \<open>The two point queries of the read API (\<^verbatim>\<open>GET /payments/:paymentId\<close>,
  \<^verbatim>\<open>GET /merchants/:address\<close>): the first row with the key.\<close>

definition getPayment :: "payment_id \<Rightarrow> db \<Rightarrow> payment_row option" where
  "getPayment pid d = find (\<lambda>r. payment_id r = pid) (payment_intents d)"

definition getMerchant :: "address \<Rightarrow> db \<Rightarrow> merchant_row option" where
  "getMerchant a d = find (\<lambda>r. address r = a) (merchants d)"

section \<open>Concrete states used by the examples\<close>

definition ex_config :: webhook_config where
  "ex_config =
     \<lparr> wc_id = 1, merchant_address = ''0xM'', webhook_url = ''https://shop.example/hook'',
       secret = ''s3cr3t'', wc_is_active = True \<rparr>"

definition ex_delivery :: "int \<Rightarrow> int option \<Rightarrow> delivery_row" where
  "ex_delivery n t =
     \<lparr> wd_id = 1, webhook_config_id = 1, wd_payment_id = ''0xP'',
       event_type = ''payment.created'', payload = [], wd_status = StPending,
       attempts = n, last_attempt_at = None, next_retry_at = t \<rparr>"

definition ex_merchant :: "bool \<Rightarrow> int \<Rightarrow> merchant_row" where
  "ex_merchant act tot =
     \<lparr> address = ''0xM'', business_name = ''Shop'', is_active = act, registered_at = 10,
       total_payments_received = SqlInteger tot \<rparr>"

definition ex_payment :: "PaymentStatus \<Rightarrow> address option \<Rightarrow> payment_row" where
  "ex_payment st pyr =
     \<lparr> payment_id = ''0xP'', merchant = ''0xM'', token_address = ''0xT'', amount = 100,
       expiry_timestamp = 5000, status = st, created_at = 900,
       payer = pyr, paid_at = map_option (\<lambda>_. 950) pyr,
       platform_fee = map_option (\<lambda>_. 1) pyr,
       block_number = 100, transaction_hash = ''0xH'' \<rparr>"

definition ex_db :: "bool \<Rightarrow> merchant_row list \<Rightarrow> payment_row list \<Rightarrow> delivery_row list \<Rightarrow> db" where
  "ex_db fk ms ps rows =
     \<lparr> merchants = ms, payment_intents = ps, webhook_configs = [ex_config],
       webhook_deliveries = rows, indexer_state = None, event_logs = [],
       webhook_configs_seq = 1, webhook_deliveries_seq = length rows, event_logs_seq = 0,
       foreign_keys = fk \<rparr>"

definition ex_env :: "http_result \<Rightarrow> env" where
  "ex_env r =
     \<lparr> http_post = (\<lambda>_. r), date_now = (\<lambda>_. 1000), getBlockNumber = None,
       getLogs = (\<lambda>_ _. None), getBlock = (\<lambda>_. Block 900), clock = 1000,
       real_text_prefix = (\<lambda>_ _. 9) \<rparr>"

section \<open>Auxiliary notions for the delivery table\<close>

text \<open>Everything of the database but the delivery table and its sequence.\<close>

definition outside_deliveries :: "db \<Rightarrow> db" where
  "outside_deliveries d = d\<lparr> webhook_deliveries := [], webhook_deliveries_seq := 0 \<rparr>"

text \<open>What a delivery row was enqueued for: subscription, payment, event name and
  payload, the columns written by \<^verbatim>\<open>createWebhookDelivery\<close>.\<close>

definition enqueued_for :: "delivery_row \<Rightarrow> nat \<times> payment_id \<times> string \<times> payload_obj" where
  "enqueued_for r = (webhook_config_id r, wd_payment_id r, event_type r, payload r)"

text \<open>The active subscriptions of a merchant, as \<^verbatim>\<open>triggerWebhook\<close> selects them.\<close>

definition active_webhooks :: "address \<Rightarrow> db \<Rightarrow> webhook_config list" where
  "active_webhooks m d =
     filter (\<lambda>c. merchant_address c = m \<and> wc_is_active c) (webhook_configs d)"

definition ex_log :: "event \<Rightarrow> raw_log" where
  "ex_log ev = \<lparr> log_block_number = 120, log_transaction_hash = ''0xE'', parsed = Some ev \<rparr>"

text \<open>A chain whose blocks 101 to 1100 hold one \<open>PaymentCompleted\<close> event of 100 for
  payment \<open>0xP\<close>; \<open>ok\<close> tells whether the RPC answers the query for the batch that
  starts at block 1101.\<close>

definition ex_chain :: "bool \<Rightarrow> env" where
  "ex_chain ok =
     \<lparr> http_post = (\<lambda>_. Response 200), date_now = (\<lambda>_. 1000), getBlockNumber = Some 2500,
       getLogs = (\<lambda>fromBlock toBlock.
          if fromBlock = 101
          then Some [ex_log (PaymentCompleted ''0xP'' ''0xC'' ''0xM'' 100 1 950)]
          else if fromBlock = 1101 \<and> \<not> ok then None
          else Some []),
       getBlock = (\<lambda>_. Block 900), clock = 1000,
       real_text_prefix = (\<lambda>_ _. 9) \<rparr>"

definition ex_indexed :: "int \<Rightarrow> db" where
  "ex_indexed tot =
     (ex_db True [ex_merchant True tot] [ex_payment Pending None] []) \<lparr> indexer_state := Some 100 \<rparr>"









section \<open>Retry schedule of a failed delivery attempt\<close>

declare sync_batches.simps [simp del] batch_ranges.simps [simp del] bit_length.simps [simp del]

lemma Number_exact: "n < 2 ^ 53 \<Longrightarrow> Number n = int n"
  by (simp add: Number_def)

lemma Number_small [simp]:
  "Number 10 = 10" "Number 20 = 20" "Number 950 = 950" "Number 960 = 960" "Number 5000 = 5000"
  by (simp_all add: Number_def)

lemma bit_length_example: "bit_length 9007199254740993 = 54"
  by (simp add: bit_length.simps)

lemma Number_rounds: "Number 9007199254740993 = 9007199254740992"
  by (simp add: Number_def bit_length_example)

lemma nextRetryDelay_index:
  assumes "1 \<le> n"
  shows "nextRetryDelay n = RETRY_DELAYS ! nat (min (n - 1) (int (length RETRY_DELAYS) - 1))"
proof -
  from assms consider "n = 1" | "n = 2" | "n = 3" | "n = 4" | "n = 5" | "5 < n"
    by linarith
  then show ?thesis
    by cases (simp_all add: nextRetryDelay_def RETRY_DELAYS_def min_def)
qed

lemma find_wd_id: "find (\<lambda>r. wd_id r = i) rows = Some dl \<Longrightarrow> wd_id dl = i"
  by (induction rows) (auto split: if_splits)

lemma find_update_by_id:
  assumes "find (\<lambda>r. wd_id r = i) rows = Some dl"
    and "\<And>r. wd_id (f r) = wd_id r"
  shows "find (\<lambda>r. wd_id r = i) (map (\<lambda>r. if wd_id r = i then f r else r) rows) = Some (f dl)"
  using assms by (induction rows) (auto split: if_splits)

lemma sendWebhook_failure:
  assumes "find (\<lambda>r. wd_id r = i) (webhook_deliveries d) = Some dl"
    and "find (\<lambda>c. wc_id c = webhook_config_id dl) (webhook_configs d) = Some c"
    and "send_fails e i"
  shows "sendWebhook e i d = send_failed e dl d"
  using assms by (auto simp: sendWebhook_def send_finish_def send_fails_def split: http_result.splits)

text \<open>
  Claim C7. A delivery attempt that fails (the POST throws, or answers outside 2xx)
  rewrites the delivery's row: \<open>attempts\<close> is incremented and \<open>last_attempt_at\<close> is the
  current time; when the incremented count has reached \<open>MAX_RETRY_ATTEMPTS = 5\<close> the
  status becomes failed, otherwise \<open>next_retry_at\<close> is the current time plus the entry
  of \<open>[60, 300, 900, 3600, 7200]\<close> at index \<open>attempts - 1\<close>, clamped to the last index;
  the delay the code computes is 7200 for every count beyond the table.
\<close>

theorem sendWebhook_failure_schedule:
  assumes "find (\<lambda>r. wd_id r = i) (webhook_deliveries d) = Some dl"
    and "find (\<lambda>c. wc_id c = webhook_config_id dl) (webhook_configs d) = Some c"
    and "send_fails e i"
    and "0 \<le> attempts dl"
  shows "find (\<lambda>r. wd_id r = i) (webhook_deliveries (sendWebhook e i d)) =
           Some (if attempts dl + 1 \<ge> MAX_RETRY_ATTEMPTS
                 then dl\<lparr> wd_status := StFailed, attempts := attempts dl + 1,
                          last_attempt_at := Some (date_now e i) \<rparr>
                 else dl\<lparr> attempts := attempts dl + 1,
                          last_attempt_at := Some (date_now e i),
                          next_retry_at := Some (date_now e i +
                            RETRY_DELAYS !
                              nat (min (attempts dl + 1 - 1) (int (length RETRY_DELAYS) - 1))) \<rparr>)
         \<and> MAX_RETRY_ATTEMPTS = 5 \<and> RETRY_DELAYS = [60, 300, 900, 3600, 7200]
         \<and> (\<forall>n > 5. nextRetryDelay n = 7200)"
proof -
  have id: "wd_id dl = i"
    using assms(1) by (rule find_wd_id)
  have failed: "sendWebhook e i d = send_failed e dl d"
    using assms(1-3) by (rule sendWebhook_failure)
  have delay: "nextRetryDelay (attempts dl + 1) =
      RETRY_DELAYS ! nat (min (attempts dl + 1 - 1) (int (length RETRY_DELAYS) - 1))"
    using assms(4) by (intro nextRetryDelay_index) simp
  have clamp: "\<forall>n > 5. nextRetryDelay n = 7200"
    by (simp add: nextRetryDelay_def RETRY_DELAYS_def)
  have row: "find (\<lambda>r. wd_id r = i) (webhook_deliveries (send_failed e dl d)) =
           Some (if attempts dl + 1 \<ge> MAX_RETRY_ATTEMPTS
                 then dl\<lparr> wd_status := StFailed, attempts := attempts dl + 1,
                          last_attempt_at := Some (date_now e i) \<rparr>
                 else dl\<lparr> attempts := attempts dl + 1,
                          last_attempt_at := Some (date_now e i),
                          next_retry_at := Some (date_now e i +
                            nextRetryDelay (attempts dl + 1)) \<rparr>)"
    using assms(1) id
    by (simp add: send_failed_def Let_def mark_failed_def schedule_retry_def find_update_by_id)
  show ?thesis
    using row clamp unfolding failed delay
    by (simp add: MAX_RETRY_ATTEMPTS_def RETRY_DELAYS_def)
qed

theorem sendWebhook_failure_schedule_witness:
  "find (\<lambda>r. wd_id r = 1)
     (webhook_deliveries
        (sendWebhook (ex_env (Response 500)) 1 (ex_db True [] [] [ex_delivery 1 (Some 500)]))) =
     Some ((ex_delivery 1 (Some 500))
             \<lparr> attempts := 2, last_attempt_at := Some 1000, next_retry_at := Some 1300 \<rparr>)
   \<and> find (\<lambda>r. wd_id r = 1)
     (webhook_deliveries
        (sendWebhook (ex_env Threw) 1 (ex_db True [] [] [ex_delivery 4 (Some 500)]))) =
     Some ((ex_delivery 4 (Some 500))
             \<lparr> wd_status := StFailed, attempts := 5, last_attempt_at := Some 1000 \<rparr>)"
proof -
  have a: "find (\<lambda>r. wd_id r = 1) (webhook_deliveries (ex_db True [] [] [ex_delivery n t])) =
      Some (ex_delivery n t)" for n t
    by (simp add: ex_db_def ex_delivery_def)
  have b: "find (\<lambda>c. wc_id c = webhook_config_id (ex_delivery n t))
      (webhook_configs (ex_db True [] [] [ex_delivery n t])) = Some ex_config" for n t
    by (simp add: ex_db_def ex_delivery_def ex_config_def)
  have c: "send_fails (ex_env (Response 500)) 1" "send_fails (ex_env Threw) 1"
    by (simp_all add: send_fails_def ex_env_def)
  have d: "0 \<le> attempts (ex_delivery 1 (Some 500))" "0 \<le> attempts (ex_delivery 4 (Some 500))"
    by (simp_all add: ex_delivery_def)
  show ?thesis
    using sendWebhook_failure_schedule [OF a b c(1) d(1), THEN conjunct1]
      sendWebhook_failure_schedule [OF a b c(2) d(2), THEN conjunct1]
    by (simp add: ex_delivery_def ex_env_def MAX_RETRY_ATTEMPTS_def RETRY_DELAYS_def)
qed

section \<open>Selection by the retry worker\<close>

text \<open>
  Claim C6, as stated, fails. The row that \<open>createWebhookDelivery\<close> inserts is pending
  with no \<open>next_retry_at\<close>; it meets the specification's condition, and while it
  stays so (the process stopped before the attempt was recorded) no tick selects
  it: the tick leaves the database as it was, whatever the endpoint would answer.
\<close>

theorem retry_worker_skips_null_counterexample:
  "createWebhookDelivery 1 ''0xP'' ''payment.created'' []
       (ex_db True [] [ex_payment Pending None] []) =
     Inr (1, ex_db True [] [ex_payment Pending None] [ex_delivery 0 None])
   \<and> spec_due 1000 (ex_delivery 0 None)
   \<and> pendingRetries 1000 (ex_db True [] [ex_payment Pending None] [ex_delivery 0 None]) = []
   \<and> retry_tick (ex_env (Response 200))
         (ex_db True [] [ex_payment Pending None] [ex_delivery 0 None]) =
       ex_db True [] [ex_payment Pending None] [ex_delivery 0 None]"
  by (simp add: spec_due_def pendingRetries_def retry_tick_def due_for_retry_def
      ex_delivery_def ex_db_def ex_env_def MAX_RETRY_ATTEMPTS_def createWebhookDelivery_def
      ex_config_def ex_payment_def Let_def)

text \<open>
  Claim C6, amended. On every tick the worker selects exactly the delivery rows with
  status pending, fewer than \<open>MAX_RETRY_ATTEMPTS\<close> attempts and a \<open>next_retry_at\<close> that
  is set and not later than the current time, and sends each of them in turn; a row
  whose \<open>next_retry_at\<close> is null is never among them.
\<close>

theorem retry_worker_selection:
  "pendingRetries now d =
     map wd_id
       (filter (\<lambda>r. wd_status r = StPending \<and> attempts r < 5 \<and>
                     (\<exists>t. next_retry_at r = Some t \<and> t \<le> now))
          (webhook_deliveries d))
   \<and> retry_tick e d = foldl (\<lambda>s i. sendWebhook e i s) d (pendingRetries (clock e) d)
   \<and> (\<forall>r. next_retry_at r = None \<longrightarrow> r \<notin> set (filter (due_for_retry now) (webhook_deliveries d)))"
proof -
  have "due_for_retry now r \<longleftrightarrow>
      wd_status r = StPending \<and> attempts r < 5 \<and> (\<exists>t. next_retry_at r = Some t \<and> t \<le> now)"
    for r
    by (auto simp: due_for_retry_def MAX_RETRY_ATTEMPTS_def split: option.splits)
  then have "filter (due_for_retry now) (webhook_deliveries d) =
      filter (\<lambda>r. wd_status r = StPending \<and> attempts r < 5 \<and>
                   (\<exists>t. next_retry_at r = Some t \<and> t \<le> now)) (webhook_deliveries d)"
    by (intro filter_cong) simp_all
  then show ?thesis
    by (simp add: pendingRetries_def retry_tick_def due_for_retry_def)
qed

theorem retry_worker_selection_witness:
  "pendingRetries 1000 (ex_db True [] [] [ex_delivery 1 (Some 960)]) = [1]
   \<and> pendingRetries 1000 (ex_db True [] [] [ex_delivery 1 (Some 1060)]) = []
   \<and> pendingRetries 1000 (ex_db True [] [] [ex_delivery 1 None]) = []"
  using retry_worker_selection [of 1000 "ex_db True [] [] [ex_delivery 1 (Some 960)]" "ex_env Threw"]
    retry_worker_selection [of 1000 "ex_db True [] [] [ex_delivery 1 (Some 1060)]" "ex_env Threw"]
    retry_worker_selection [of 1000 "ex_db True [] [] [ex_delivery 1 None]" "ex_env Threw"]
  by (simp add: ex_db_def ex_delivery_def)

section \<open>Signature verification\<close>

lemma length_digest_hex: "length (digest_hex bytes) = 2 * length bytes"
  by (induction bytes) (simp_all add: digest_hex_def hex_of_byte_def)

text \<open>
  Claim C10. The signature that \<open>generateSignature\<close> computes is the hex text of the
  32-byte HMAC-SHA256 digest, 64 characters. \<open>verifySignature\<close> returns a boolean
  (whether the supplied signature equals the computed one) exactly when the supplied
  signature is 64 bytes long; for every other length it raises the RangeError of
  \<^verbatim>\<open>timingSafeEqual\<close> instead of returning false.
\<close>

theorem verifySignature_length:
  assumes "length (hmac sec (stringify pl)) = 32"
  shows "length (generateSignature hmac stringify pl sec) = 64
    \<and> (length signature = 64 \<longrightarrow>
         verifySignature hmac stringify pl signature sec =
           Inr (signature = generateSignature hmac stringify pl sec))
    \<and> (length signature \<noteq> 64 \<longrightarrow>
         verifySignature hmac stringify pl signature sec = Inl RangeError)"
  using assms
  by (simp add: verifySignature_def timingSafeEqual_def generateSignature_def length_digest_hex)

theorem verifySignature_length_witness:
  "verifySignature (\<lambda>k m. replicate 32 (CHR ''a'')) (\<lambda>p. p) ''{}'' ''abc'' ''key'' = Inl RangeError
   \<and> verifySignature (\<lambda>k m. replicate 32 (CHR ''a'')) (\<lambda>p. p) ''{}''
        (generateSignature (\<lambda>k m. replicate 32 (CHR ''a'')) (\<lambda>p. p) ''{}'' ''key'') ''key'' =
       Inr True"
  using verifySignature_length [of "\<lambda>k m. replicate 32 (CHR ''a'')" "''key''" "\<lambda>p. p" "''{}''" "''abc''"]
    verifySignature_length [of "\<lambda>k m. replicate 32 (CHR ''a'')" "''key''" "\<lambda>p. p" "''{}''"
      "generateSignature (\<lambda>k m. replicate 32 (CHR ''a'')) (\<lambda>p. p) ''{}'' ''key''"]
  by simp

section \<open>What a webhook trigger changes\<close>

lemma frame_fields:
  assumes "outside_deliveries a = outside_deliveries b"
  shows "merchants a = merchants b" "payment_intents a = payment_intents b"
    "webhook_configs a = webhook_configs b" "indexer_state a = indexer_state b"
    "event_logs a = event_logs b" "foreign_keys a = foreign_keys b"
    "event_logs_seq a = event_logs_seq b" "webhook_configs_seq a = webhook_configs_seq b"
proof -
  have "f (outside_deliveries a) = f (outside_deliveries b)" for f :: "db \<Rightarrow> 'a"
    using assms by simp
  note eq = this
  show "merchants a = merchants b" using eq [of merchants] by (simp add: outside_deliveries_def)
  show "payment_intents a = payment_intents b"
    using eq [of payment_intents] by (simp add: outside_deliveries_def)
  show "webhook_configs a = webhook_configs b"
    using eq [of webhook_configs] by (simp add: outside_deliveries_def)
  show "indexer_state a = indexer_state b"
    using eq [of indexer_state] by (simp add: outside_deliveries_def)
  show "event_logs a = event_logs b" using eq [of event_logs] by (simp add: outside_deliveries_def)
  show "foreign_keys a = foreign_keys b"
    using eq [of foreign_keys] by (simp add: outside_deliveries_def)
  show "event_logs_seq a = event_logs_seq b"
    using eq [of event_logs_seq] by (simp add: outside_deliveries_def)
  show "webhook_configs_seq a = webhook_configs_seq b"
    using eq [of webhook_configs_seq] by (simp add: outside_deliveries_def)
qed

lemma send_failed_frame: "outside_deliveries (send_failed e dl d) = outside_deliveries d"
  by (simp add: send_failed_def outside_deliveries_def Let_def)

lemma sendWebhook_frame: "outside_deliveries (sendWebhook e i d) = outside_deliveries d"
  by (simp add: sendWebhook_def send_finish_def send_failed_frame split: option.splits http_result.splits)
    (simp add: outside_deliveries_def)



lemma send_failed_enqueued:
  "map enqueued_for (webhook_deliveries (send_failed e dl d)) =
   map enqueued_for (webhook_deliveries d)"
  by (simp add: send_failed_def Let_def mark_failed_def schedule_retry_def enqueued_for_def)

lemma sendWebhook_enqueued:
  "map enqueued_for (webhook_deliveries (sendWebhook e i d)) =
   map enqueued_for (webhook_deliveries d)"
  by (simp add: sendWebhook_def send_finish_def send_failed_enqueued split: option.splits http_result.splits)
    (simp add: mark_success_def enqueued_for_def)

lemma createWebhookDelivery_frame:
  "createWebhookDelivery w pid evt pl d = Inr (i, d1) \<Longrightarrow>
   outside_deliveries d1 = outside_deliveries d"
  by (auto simp: createWebhookDelivery_def outside_deliveries_def Let_def split: if_splits)

lemma trigger_loop_frame:
  "outside_deliveries (snd (trigger_loop e pid evt pl ws d)) = outside_deliveries d"
proof (induction ws arbitrary: d)
  case Nil
  show ?case by simp
next
  case (Cons w ws)
  show ?case
  proof (cases "createWebhookDelivery (wc_id w) pid evt pl d")
    case (Inl err)
    then show ?thesis by simp
  next
    case (Inr p)
    obtain i d1 where p: "p = (i, d1)" by (cases p)
    have "outside_deliveries d1 = outside_deliveries d"
      using Inr p by (auto intro: createWebhookDelivery_frame)
    then show ?thesis
      using Inr p Cons.IH [of "sendWebhook e i d1"] by (simp add: sendWebhook_frame)
  qed
qed

lemma triggerWebhook_frame:
  "outside_deliveries (snd (triggerWebhook e m pid evt pl d)) = outside_deliveries d"
  by (simp add: triggerWebhook_def trigger_loop_frame)

lemma trigger_loop_enqueues:
  assumes "foreign_keys d \<longrightarrow>
      pid \<in> set (map payment_id (payment_intents d)) \<and>
      set (map wc_id ws) \<subseteq> set (map wc_id (webhook_configs d))"
  shows "fst (trigger_loop e pid evt pl ws d) = None \<and>
    map enqueued_for (webhook_deliveries (snd (trigger_loop e pid evt pl ws d))) =
      map enqueued_for (webhook_deliveries d) @ map (\<lambda>w. (wc_id w, pid, evt, pl)) ws"
  using assms
proof (induction ws arbitrary: d)
  case Nil
  show ?case by simp
next
  case (Cons w ws)
  define d1 where "d1 = d\<lparr> webhook_deliveries := webhook_deliveries d @
                [\<lparr> wd_id = Suc (webhook_deliveries_seq d), webhook_config_id = wc_id w,
                   wd_payment_id = pid, event_type = evt, payload = pl,
                   wd_status = StPending, attempts = 0, last_attempt_at = None,
                   next_retry_at = None \<rparr>],
             webhook_deliveries_seq := Suc (webhook_deliveries_seq d) \<rparr>"
  have created: "createWebhookDelivery (wc_id w) pid evt pl d = Inr (Suc (webhook_deliveries_seq d), d1)"
    using Cons.prems by (auto simp: createWebhookDelivery_def d1_def Let_def)
  let ?d2 = "sendWebhook e (Suc (webhook_deliveries_seq d)) d1"
  have fr: "outside_deliveries ?d2 = outside_deliveries d"
    using createWebhookDelivery_frame [OF created] by (simp add: sendWebhook_frame)
  have pre: "foreign_keys ?d2 \<longrightarrow>
      pid \<in> set (map payment_id (payment_intents ?d2)) \<and>
      set (map wc_id ws) \<subseteq> set (map wc_id (webhook_configs ?d2))"
    using Cons.prems frame_fields [OF fr] by auto
  have "map enqueued_for (webhook_deliveries ?d2) =
      map enqueued_for (webhook_deliveries d) @ [(wc_id w, pid, evt, pl)]"
    by (simp add: sendWebhook_enqueued) (simp add: d1_def enqueued_for_def)
  then show ?case
    using Cons.IH [OF pre] created by simp
qed

lemma triggerWebhook_enqueues:
  assumes "foreign_keys d \<longrightarrow> pid \<in> set (map payment_id (payment_intents d))"
  shows "fst (triggerWebhook e m pid evt pl d) = None \<and>
    map enqueued_for (webhook_deliveries (snd (triggerWebhook e m pid evt pl d))) =
      map enqueued_for (webhook_deliveries d) @
      map (\<lambda>w. (wc_id w, pid, evt, pl)) (active_webhooks m d)"
  unfolding triggerWebhook_def active_webhooks_def
  by (rule trigger_loop_enqueues) (use assms in auto)

section \<open>Status updates of the projector\<close>

lemma find_payment_update:
  assumes "\<And>r. payment_id (f r) = payment_id r"
  shows "find (\<lambda>r. payment_id r = pid) (map (\<lambda>r. if payment_id r = pid then f r else r) rows) =
    map_option f (find (\<lambda>r. payment_id r = pid) rows)"
  using assms by (induction rows) auto

lemma find_payment_mem:
  "find (\<lambda>r. payment_id r = pid) rows = Some p \<Longrightarrow> pid \<in> set (map payment_id rows)"
  by (induction rows) (auto split: if_splits)

lemma find_payment_none:
  "find (\<lambda>r. payment_id r = pid) rows = None \<Longrightarrow>
   map (\<lambda>r. if payment_id r = pid then f r else r) rows = rows"
  by (induction rows) (auto split: if_splits)

lemma set_status_ids:
  "map payment_id (payment_intents (set_status st pid d)) = map payment_id (payment_intents d)"
  by (simp add: set_status_def comp_def if_distrib cong: if_cong)

lemma set_status_other:
  "webhook_deliveries (set_status st pid d) = webhook_deliveries d"
  "webhook_configs (set_status st pid d) = webhook_configs d"
  "active_webhooks m (set_status st pid d) = active_webhooks m d"
  by (simp_all add: set_status_def active_webhooks_def)

lemma set_status_get:
  "getPayment pid (set_status st pid d) = map_option (\<lambda>r. r\<lparr> status := st \<rparr>) (getPayment pid d)"
  by (simp add: getPayment_def set_status_def find_payment_update)

lemma set_status_absent: "getPayment pid d = None \<Longrightarrow> set_status st pid d = d"
  by (simp add: getPayment_def set_status_def find_payment_none)

text \<open>
  Claim C1, as stated, fails: a \<open>PaymentExpired\<close> event for a payment whose status is
  \<open>Completed\<close> rewrites the row to \<open>Expired\<close> and enqueues a \<^verbatim>\<open>payment.expired\<close>
  delivery.
\<close>

theorem projector_overwrites_completed_counterexample:
  "getPayment ''0xP'' (ex_db True [ex_merchant True 100] [ex_payment Completed (Some ''0xC'')] []) =
     Some (ex_payment Completed (Some ''0xC''))
   \<and> getPayment ''0xP''
       (snd (handleEvent (ex_env (Response 200)) (PaymentExpired ''0xP'' 990)
               (ex_log (PaymentExpired ''0xP'' 990))
               (ex_db True [ex_merchant True 100] [ex_payment Completed (Some ''0xC'')] []))) =
     Some ((ex_payment Completed (Some ''0xC'')) \<lparr> status := Expired \<rparr>)
   \<and> payment_intents
       (snd (handleEvent (ex_env (Response 200)) (PaymentExpired ''0xP'' 990)
               (ex_log (PaymentExpired ''0xP'' 990))
               (ex_db True [ex_merchant True 100] [ex_payment Completed (Some ''0xC'')] []))) \<noteq>
     payment_intents (ex_db True [ex_merchant True 100] [ex_payment Completed (Some ''0xC'')] [])
   \<and> webhook_deliveries
       (ex_db True [ex_merchant True 100] [ex_payment Completed (Some ''0xC'')] []) = []
   \<and> map event_type (webhook_deliveries
       (snd (handleEvent (ex_env (Response 200)) (PaymentExpired ''0xP'' 990)
               (ex_log (PaymentExpired ''0xP'' 990))
               (ex_db True [ex_merchant True 100] [ex_payment Completed (Some ''0xC'')] [])))) =
     [''payment.expired'']"
  by (simp add: getPayment_def handleEvent_def ex_env_def ex_log_def ex_db_def
      storeEventLog_def handlePaymentExpired_def set_status_def ex_payment_def
      triggerWebhook_def ex_config_def createWebhookDelivery_def sendWebhook_def send_finish_def
      mark_success_def Let_def)

lemma set_status_then_trigger:
  assumes "getPayment pid d = Some p"
  shows "fst (triggerWebhook e m pid evt pl (set_status st pid d)) = None"
    and "payment_intents (snd (triggerWebhook e m pid evt pl (set_status st pid d))) =
      map (\<lambda>r. if payment_id r = pid then r\<lparr> status := st \<rparr> else r) (payment_intents d)"
    and "getPayment pid (snd (triggerWebhook e m pid evt pl (set_status st pid d))) =
      Some (p\<lparr> status := st \<rparr>)"
    and "map enqueued_for
        (webhook_deliveries (snd (triggerWebhook e m pid evt pl (set_status st pid d)))) =
      map enqueued_for (webhook_deliveries d) @
      map (\<lambda>w. (wc_id w, pid, evt, pl)) (active_webhooks m d)"
proof -
  have mem: "pid \<in> set (map payment_id (payment_intents (set_status st pid d)))"
    using assms find_payment_mem [of pid "payment_intents d" p]
    by (simp add: set_status_ids getPayment_def del: set_map)
  note enq = triggerWebhook_enqueues [of "set_status st pid d" pid e m evt pl]
  show "fst (triggerWebhook e m pid evt pl (set_status st pid d)) = None"
    using enq mem by blast
  show "map enqueued_for
        (webhook_deliveries (snd (triggerWebhook e m pid evt pl (set_status st pid d)))) =
      map enqueued_for (webhook_deliveries d) @
      map (\<lambda>w. (wc_id w, pid, evt, pl)) (active_webhooks m d)"
    using enq mem by (simp add: set_status_other del: set_map)
  show rows: "payment_intents (snd (triggerWebhook e m pid evt pl (set_status st pid d))) =
      map (\<lambda>r. if payment_id r = pid then r\<lparr> status := st \<rparr> else r) (payment_intents d)"
    using frame_fields(2) [OF triggerWebhook_frame] by (simp add: set_status_def)
  show "getPayment pid (snd (triggerWebhook e m pid evt pl (set_status st pid d))) =
      Some (p\<lparr> status := st \<rparr>)"
    using assms unfolding getPayment_def rows by (simp add: find_payment_update)
qed

lemma handlePaymentExpired_found:
  assumes "getPayment pid d = Some p"
  shows "handlePaymentExpired e pid d =
    triggerWebhook e (merchant p) pid ''payment.expired''
      [(''paymentId'', JString pid), (''status'', JString ''expired'')]
      (set_status Expired pid d)"
proof -
  have "find (\<lambda>r. payment_id r = pid) (payment_intents (set_status Expired pid d)) =
      Some (p\<lparr> status := Expired \<rparr>)"
    using set_status_get [of pid Expired d] assms by (simp add: getPayment_def)
  then show ?thesis
    by (simp add: handlePaymentExpired_def Let_def)
qed

lemma handlePaymentRefunded_found:
  assumes "getPayment pid d = Some p"
  shows "handlePaymentRefunded e pid amt d =
    triggerWebhook e (merchant p) pid ''payment.refunded''
      [(''paymentId'', JString pid), (''amount'', JBigint amt), (''status'', JString ''refunded'')]
      (set_status Refunded pid d)"
proof -
  have "find (\<lambda>r. payment_id r = pid) (payment_intents (set_status Refunded pid d)) =
      Some (p\<lparr> status := Refunded \<rparr>)"
    using set_status_get [of pid Refunded d] assms by (simp add: getPayment_def)
  then show ?thesis
    by (simp add: handlePaymentRefunded_def Let_def)
qed

text \<open>
  Claim C1, amended. The projector applies \<open>PaymentExpired\<close>, \<open>PaymentCancelled\<close> and
  \<open>PaymentRefunded\<close> without consulting the current status. For a payment that has a
  row, whatever its status, the handler sets the status of that row to \<open>Expired\<close>
  (\<open>Cancelled\<close>, \<open>Refunded\<close>), leaves its other fields and every other row as they
  were, raises no error and enqueues one delivery per active subscription of the
  merchant (the row's merchant for \<open>PaymentExpired\<close> and \<open>PaymentRefunded\<close>, the
  event's for \<open>PaymentCancelled\<close>). Only when no row has the payment id is the payment
  table left unchanged, and \<open>PaymentExpired\<close> and \<open>PaymentRefunded\<close> then change
  nothing at all.
\<close>

theorem projector_no_transition_guard:
  "(getPayment pid d = Some p \<longrightarrow>
      fst (handlePaymentExpired e pid d) = None
    \<and> payment_intents (snd (handlePaymentExpired e pid d)) =
        map (\<lambda>r. if payment_id r = pid then r\<lparr> status := Expired \<rparr> else r) (payment_intents d)
    \<and> getPayment pid (snd (handlePaymentExpired e pid d)) = Some (p\<lparr> status := Expired \<rparr>)
    \<and> map enqueued_for (webhook_deliveries (snd (handlePaymentExpired e pid d))) =
        map enqueued_for (webhook_deliveries d) @
        map (\<lambda>w. (wc_id w, pid, ''payment.expired'',
                   [(''paymentId'', JString pid), (''status'', JString ''expired'')]))
          (active_webhooks (merchant p) d)
    \<and> fst (handlePaymentCancelled e pid m d) = None
    \<and> payment_intents (snd (handlePaymentCancelled e pid m d)) =
        map (\<lambda>r. if payment_id r = pid then r\<lparr> status := Cancelled \<rparr> else r) (payment_intents d)
    \<and> getPayment pid (snd (handlePaymentCancelled e pid m d)) = Some (p\<lparr> status := Cancelled \<rparr>)
    \<and> map enqueued_for (webhook_deliveries (snd (handlePaymentCancelled e pid m d))) =
        map enqueued_for (webhook_deliveries d) @
        map (\<lambda>w. (wc_id w, pid, ''payment.cancelled'',
                   [(''paymentId'', JString pid), (''status'', JString ''cancelled'')]))
          (active_webhooks m d)
    \<and> fst (handlePaymentRefunded e pid amt d) = None
    \<and> payment_intents (snd (handlePaymentRefunded e pid amt d)) =
        map (\<lambda>r. if payment_id r = pid then r\<lparr> status := Refunded \<rparr> else r) (payment_intents d)
    \<and> getPayment pid (snd (handlePaymentRefunded e pid amt d)) = Some (p\<lparr> status := Refunded \<rparr>)
    \<and> map enqueued_for (webhook_deliveries (snd (handlePaymentRefunded e pid amt d))) =
        map enqueued_for (webhook_deliveries d) @
        map (\<lambda>w. (wc_id w, pid, ''payment.refunded'',
                   [(''paymentId'', JString pid), (''amount'', JBigint amt),
                    (''status'', JString ''refunded'')]))
          (active_webhooks (merchant p) d))
   \<and> (getPayment pid d = None \<longrightarrow>
        handlePaymentExpired e pid d = (None, d)
      \<and> handlePaymentRefunded e pid amt d = (None, d)
      \<and> payment_intents (snd (handlePaymentCancelled e pid m d)) = payment_intents d)"
proof (intro conjI impI)
  assume none: "getPayment pid d = None"
  show "handlePaymentExpired e pid d = (None, d)"
    using none set_status_absent [OF none, of Expired]
    by (simp add: handlePaymentExpired_def Let_def) (simp add: getPayment_def)
  show "handlePaymentRefunded e pid amt d = (None, d)"
    using none set_status_absent [OF none, of Refunded]
    by (simp add: handlePaymentRefunded_def Let_def) (simp add: getPayment_def)
  show "payment_intents (snd (handlePaymentCancelled e pid m d)) = payment_intents d"
    using frame_fields(2) [OF triggerWebhook_frame] set_status_absent [OF none, of Cancelled]
    by (simp add: handlePaymentCancelled_def)
next
  assume some: "getPayment pid d = Some p"
  note x = handlePaymentExpired_found [OF some, of e]
  note r = handlePaymentRefunded_found [OF some, of e amt]
  have c: "handlePaymentCancelled e pid m d =
      triggerWebhook e m pid ''payment.cancelled''
        [(''paymentId'', JString pid), (''status'', JString ''cancelled'')]
        (set_status Cancelled pid d)"
    by (simp add: handlePaymentCancelled_def)
  note st = set_status_then_trigger [OF some]
  show "fst (handlePaymentExpired e pid d) = None"
    unfolding x by (rule st(1))
  show "fst (handlePaymentCancelled e pid m d) = None"
    unfolding c by (rule st(1))
  show "fst (handlePaymentRefunded e pid amt d) = None"
    unfolding r by (rule st(1))
  show "payment_intents (snd (handlePaymentExpired e pid d)) =
        map (\<lambda>r. if payment_id r = pid then r\<lparr> status := Expired \<rparr> else r) (payment_intents d)"
    unfolding x by (rule st(2))
  show "payment_intents (snd (handlePaymentCancelled e pid m d)) =
        map (\<lambda>r. if payment_id r = pid then r\<lparr> status := Cancelled \<rparr> else r) (payment_intents d)"
    unfolding c by (rule st(2))
  show "payment_intents (snd (handlePaymentRefunded e pid amt d)) =
        map (\<lambda>r. if payment_id r = pid then r\<lparr> status := Refunded \<rparr> else r) (payment_intents d)"
    unfolding r by (rule st(2))
  show "getPayment pid (snd (handlePaymentExpired e pid d)) = Some (p\<lparr> status := Expired \<rparr>)"
    unfolding x by (rule st(3))
  show "getPayment pid (snd (handlePaymentCancelled e pid m d)) = Some (p\<lparr> status := Cancelled \<rparr>)"
    unfolding c by (rule st(3))
  show "getPayment pid (snd (handlePaymentRefunded e pid amt d)) = Some (p\<lparr> status := Refunded \<rparr>)"
    unfolding r by (rule st(3))
  show "map enqueued_for (webhook_deliveries (snd (handlePaymentExpired e pid d))) =
        map enqueued_for (webhook_deliveries d) @
        map (\<lambda>w. (wc_id w, pid, ''payment.expired'',
                   [(''paymentId'', JString pid), (''status'', JString ''expired'')]))
          (active_webhooks (merchant p) d)"
    unfolding x by (rule st(4))
  show "map enqueued_for (webhook_deliveries (snd (handlePaymentCancelled e pid m d))) =
        map enqueued_for (webhook_deliveries d) @
        map (\<lambda>w. (wc_id w, pid, ''payment.cancelled'',
                   [(''paymentId'', JString pid), (''status'', JString ''cancelled'')]))
          (active_webhooks m d)"
    unfolding c by (rule st(4))
  show "map enqueued_for (webhook_deliveries (snd (handlePaymentRefunded e pid amt d))) =
        map enqueued_for (webhook_deliveries d) @
        map (\<lambda>w. (wc_id w, pid, ''payment.refunded'',
                   [(''paymentId'', JString pid), (''amount'', JBigint amt),
                    (''status'', JString ''refunded'')]))
          (active_webhooks (merchant p) d)"
    unfolding r by (rule st(4))
qed

theorem projector_no_transition_guard_witness:
  "fst (handlePaymentCancelled (ex_env (Response 200)) ''0xP'' ''0xM''
          (ex_db True [ex_merchant True 100] [ex_payment Completed (Some ''0xC'')] [])) = None
   \<and> getPayment ''0xP''
        (snd (handlePaymentCancelled (ex_env (Response 200)) ''0xP'' ''0xM''
          (ex_db True [ex_merchant True 100] [ex_payment Completed (Some ''0xC'')] []))) =
       Some ((ex_payment Completed (Some ''0xC'')) \<lparr> status := Cancelled \<rparr>)
   \<and> getPayment ''0xP''
        (snd (handlePaymentExpired (ex_env (Response 200)) ''0xP''
          (ex_db True [ex_merchant True 100] [ex_payment Completed (Some ''0xC'')] []))) =
       Some ((ex_payment Completed (Some ''0xC'')) \<lparr> status := Expired \<rparr>)
   \<and> handlePaymentExpired (ex_env (Response 200)) ''0xQ''
          (ex_db True [ex_merchant True 100] [ex_payment Completed (Some ''0xC'')] []) =
       (None, ex_db True [ex_merchant True 100] [ex_payment Completed (Some ''0xC'')] [])"
proof -
  let ?d = "ex_db True [ex_merchant True 100] [ex_payment Completed (Some ''0xC'')] []"
  have a: "getPayment ''0xP'' ?d = Some (ex_payment Completed (Some ''0xC''))"
    by (simp add: getPayment_def ex_db_def ex_payment_def)
  have b: "getPayment ''0xQ'' ?d = None"
    by (simp add: getPayment_def ex_db_def ex_payment_def)
  show ?thesis
    using projector_no_transition_guard [where pid = "''0xP''" and d = ?d
        and p = "ex_payment Completed (Some ''0xC'')" and e = "ex_env (Response 200)"
        and m = "''0xM''" and amt = 100]
      projector_no_transition_guard [where pid = "''0xQ''" and d = ?d
        and p = "ex_payment Completed (Some ''0xC'')" and e = "ex_env (Response 200)"
        and m = "''0xM''" and amt = 100]
      a b
    by simp
qed

section \<open>What an event handler leaves alone\<close>

lemma handler_frame:
  "event_logs (snd (dispatch e ev bn tx ts d)) = event_logs d
   \<and> event_logs_seq (snd (dispatch e ev bn tx ts d)) = event_logs_seq d
   \<and> indexer_state (snd (dispatch e ev bn tx ts d)) = indexer_state d
   \<and> foreign_keys (snd (dispatch e ev bn tx ts d)) = foreign_keys d
   \<and> webhook_configs (snd (dispatch e ev bn tx ts d)) = webhook_configs d
   \<and> webhook_configs_seq (snd (dispatch e ev bn tx ts d)) = webhook_configs_seq d"
proof (cases ev)
  case (PaymentIntentCreated pid m tok amt expiry)
  then show ?thesis
    using frame_fields [OF triggerWebhook_frame]
    by (simp add: handlePaymentIntentCreated_def)
next
  case (PaymentCompleted pid pyr m amt fee ts')
  then show ?thesis
    using frame_fields [OF triggerWebhook_frame]
    by (simp add: handlePaymentCompleted_def)
next
  case (PaymentRefunded pid m pyr amt ts')
  then show ?thesis
    using frame_fields [OF triggerWebhook_frame]
    by (simp add: handlePaymentRefunded_def Let_def set_status_def split: option.splits)
next
  case (PaymentExpired pid ts')
  then show ?thesis
    using frame_fields [OF triggerWebhook_frame]
    by (simp add: handlePaymentExpired_def Let_def set_status_def split: option.splits)
next
  case (PaymentCancelled pid m ts')
  then show ?thesis
    using frame_fields [OF triggerWebhook_frame]
    by (simp add: handlePaymentCancelled_def set_status_def)
qed (simp_all add: handleMerchantRegistered_def handleMerchantDeactivated_def
      handleMerchantReactivated_def)

section \<open>The event log\<close>

text \<open>
  Claim C3, as stated, fails: inserting the same event twice leaves two rows in the
  log, against one after the first insert.
\<close>

theorem event_log_duplicate_counterexample:
  "event_logs (storeEventLog 120 ''0xE'' (PaymentExpired ''0xP'' 990) 900
      (storeEventLog 120 ''0xE'' (PaymentExpired ''0xP'' 990) 900 (initial_db True))) =
     [\<lparr> el_id = 1, el_block_number = 120, el_transaction_hash = ''0xE'',
        el_event = PaymentExpired ''0xP'' 990, el_timestamp = 900 \<rparr>,
      \<lparr> el_id = 2, el_block_number = 120, el_transaction_hash = ''0xE'',
        el_event = PaymentExpired ''0xP'' 990, el_timestamp = 900 \<rparr>]
   \<and> event_logs (storeEventLog 120 ''0xE'' (PaymentExpired ''0xP'' 990) 900 (initial_db True)) =
     [\<lparr> el_id = 1, el_block_number = 120, el_transaction_hash = ''0xE'',
        el_event = PaymentExpired ''0xP'' 990, el_timestamp = 900 \<rparr>]
   \<and> event_logs (storeEventLog 120 ''0xE'' (PaymentExpired ''0xP'' 990) 900
      (storeEventLog 120 ''0xE'' (PaymentExpired ''0xP'' 990) 900 (initial_db True))) \<noteq>
     event_logs (storeEventLog 120 ''0xE'' (PaymentExpired ''0xP'' 990) 900 (initial_db True))"
  by (simp add: storeEventLog_def initial_db_def Let_def)

text \<open>
  Claim C3, amended. The event store has no dedup key: inserting a record never
  raises an error and always appends one row with a fresh id, so inserting a record
  with an identical (block number, transaction hash, event name, arguments) a second
  time leaves two rows that differ in their id only; nothing else of the database
  changes. Handling an event appends one row whenever the block lookup succeeds.
\<close>

theorem event_log_appends:
  "length (event_logs (storeEventLog bn tx ev ts d)) = Suc (length (event_logs d))
   \<and> event_logs (storeEventLog bn tx ev ts (storeEventLog bn tx ev ts d)) =
       event_logs d @
       [\<lparr> el_id = Suc (event_logs_seq d), el_block_number = bn, el_transaction_hash = tx,
          el_event = ev, el_timestamp = ts \<rparr>,
        \<lparr> el_id = Suc (Suc (event_logs_seq d)), el_block_number = bn,
          el_transaction_hash = tx, el_event = ev, el_timestamp = ts \<rparr>]
   \<and> (storeEventLog bn tx ev ts d)
        \<lparr> event_logs := event_logs d, event_logs_seq := event_logs_seq d \<rparr> = d
   \<and> (getBlock e (log_block_number lg) = BlockFailed \<or>
       length (event_logs (snd (handleEvent e ev lg d))) = Suc (length (event_logs d)))"
proof -
  have "length (event_logs (snd (dispatch e ev bn' tx' ts' (storeEventLog bn' tx' ev ts'' d)))) =
      Suc (length (event_logs d))" for bn' tx' ts' ts''
    using handler_frame [of e ev bn' tx' ts' "storeEventLog bn' tx' ev ts'' d"]
    by (simp add: storeEventLog_def Let_def)
  then have "getBlock e (log_block_number lg) = BlockFailed \<or>
       length (event_logs (snd (handleEvent e ev lg d))) = Suc (length (event_logs d))"
    by (simp add: handleEvent_def Let_def split: block_result.splits)
  then show ?thesis
    by (simp add: storeEventLog_def Let_def)
qed

section \<open>Merchant registration\<close>

lemma find_filter_append_new:
  "find (\<lambda>r. address r = m) (filter (\<lambda>r. address r \<noteq> m) rows @ [x]) =
   (if address x = m then Some x else None)"
  by (induction rows) auto

lemma find_filter_append_other:
  "a \<noteq> m \<Longrightarrow> address x = m \<Longrightarrow>
   find (\<lambda>r. address r = a) (filter (\<lambda>r. address r \<noteq> m) rows @ [x]) =
   find (\<lambda>r. address r = a) rows"
  by (induction rows) auto

text \<open>
  Claim C5, as stated, fails: a second \<open>MerchantRegistered\<close> for a deactivated merchant
  with a total of 100 leaves the merchant active with a total of 0.
\<close>

theorem merchant_registration_counterexample:
  "getMerchant ''0xM'' (ex_db True [ex_merchant False 100] [] []) = Some (ex_merchant False 100)
   \<and> getMerchant ''0xM''
       (handleMerchantRegistered ''0xM'' ''Shop'' 10 (ex_db True [ex_merchant False 100] [] [])) =
     Some (ex_merchant True 0)
   \<and> total_payments_received (ex_merchant True 0) \<noteq>
     total_payments_received (ex_merchant False 100)
   \<and> merchants
       (handleMerchantRegistered ''0xM'' ''Shop'' 10 (ex_db True [ex_merchant False 100] [] [])) \<noteq>
     merchants (ex_db True [ex_merchant False 100] [] [])"
  by (simp add: getMerchant_def handleMerchantRegistered_def ex_db_def ex_merchant_def)

text \<open>
  Claim C5, amended. Handling a \<open>MerchantRegistered\<close> event always writes the row of
  that address anew, with the event's business name and timestamp (as
  \<^verbatim>\<open>Number(args.timestamp)\<close>), \<open>is_active\<close> true
  and a zero total, whether or not the address already had a row (an existing row
  is replaced, its accumulated total reset); the rows of other addresses and the
  rest of the database are left unchanged, and addresses stay unique.
\<close>

theorem merchant_registration_replaces:
  "getMerchant m (handleMerchantRegistered m businessName ts d) =
     Some \<lparr> address = m, business_name = businessName, is_active = True,
            registered_at = Number ts, total_payments_received = SqlInteger 0 \<rparr>
   \<and> (\<forall>a. a \<noteq> m \<longrightarrow>
        getMerchant a (handleMerchantRegistered m businessName ts d) = getMerchant a d)
   \<and> (distinct (map address (merchants d)) \<longrightarrow>
        distinct (map address (merchants (handleMerchantRegistered m businessName ts d))))
   \<and> (handleMerchantRegistered m businessName ts d) \<lparr> merchants := merchants d \<rparr> = d"
proof -
  have "distinct (map address (filter (\<lambda>r. address r \<noteq> m) rows))"
    if "distinct (map address rows)" for rows :: "merchant_row list"
    using that by (induction rows) auto
  then show ?thesis
    by (auto simp: getMerchant_def handleMerchantRegistered_def find_filter_append_new
        find_filter_append_other)
qed

theorem merchant_registration_replaces_witness:
  "getMerchant ''0xM''
     (handleMerchantRegistered ''0xN'' ''Other'' 20 (ex_db True [ex_merchant False 100] [] [])) =
     Some (ex_merchant False 100)
   \<and> getMerchant ''0xN''
     (handleMerchantRegistered ''0xN'' ''Other'' 20 (ex_db True [ex_merchant False 100] [] [])) =
     Some \<lparr> address = ''0xN'', business_name = ''Other'', is_active = True,
            registered_at = 20, total_payments_received = SqlInteger 0 \<rparr>
   \<and> distinct (map address (merchants
       (handleMerchantRegistered ''0xN'' ''Other'' 20 (ex_db True [ex_merchant False 100] [] []))))"
proof -
  let ?d = "ex_db True [ex_merchant False 100] [] []"
  have a: "getMerchant ''0xM'' ?d = Some (ex_merchant False 100)"
    by (simp add: getMerchant_def ex_db_def ex_merchant_def)
  have b: "distinct (map address (merchants ?d))"
    by (simp add: ex_db_def)
  have c: "''0xM'' \<noteq> ''0xN''"
    by simp
  note w = merchant_registration_replaces [of "''0xN''" "''Other''" 20 ?d]
  have new: "getMerchant ''0xN'' (handleMerchantRegistered ''0xN'' ''Other'' 20 ?d) =
      Some \<lparr> address = ''0xN'', business_name = ''Other'', is_active = True,
             registered_at = Number 20, total_payments_received = SqlInteger 0 \<rparr>"
    using w by (rule conjunct1)
  have old: "getMerchant ''0xM'' (handleMerchantRegistered ''0xN'' ''Other'' 20 ?d) =
      getMerchant ''0xM'' ?d"
    by (rule w [THEN conjunct2, THEN conjunct1, rule_format, OF c])
  have dist: "distinct (map address (merchants (handleMerchantRegistered ''0xN'' ''Other'' 20 ?d)))"
    by (rule w [THEN conjunct2, THEN conjunct2, THEN conjunct1, rule_format, OF b])
  show ?thesis
    unfolding old a using new dist by simp
qed

section \<open>Payment rows\<close>

lemma find_payment_replace_new:
  "find (\<lambda>r. payment_id r = pid) (filter (\<lambda>r. payment_id r \<noteq> pid) rows @ [x]) =
   (if payment_id x = pid then Some x else None)"
  by (induction rows) auto

lemma find_payment_replace_other:
  "q \<noteq> pid \<Longrightarrow> payment_id x = pid \<Longrightarrow>
   find (\<lambda>r. payment_id r = q) (filter (\<lambda>r. payment_id r \<noteq> pid) rows @ [x]) =
   find (\<lambda>r. payment_id r = q) rows"
  by (induction rows) auto

lemma distinct_payment_replace:
  fixes rows :: "payment_row list"
  assumes "distinct (map payment_id rows)" and "payment_id x = pid"
  shows "distinct (map payment_id (filter (\<lambda>r. payment_id r \<noteq> pid) rows @ [x]))"
  using assms by (induction rows) auto

lemma payment_ids_update:
  assumes "\<And>r. payment_id (f r) = payment_id r"
  shows "map (payment_id \<circ> (\<lambda>r. if payment_id r = pid then f r else r)) rows =
    map payment_id rows"
  using assms by (induction rows) auto

lemma dispatch_payment_ids_distinct:
  assumes "distinct (map payment_id (payment_intents d))"
  shows "distinct (map payment_id (payment_intents (snd (dispatch e ev bn tx ts d))))"
proof (cases ev)
  case (PaymentIntentCreated pid m tok amt expiry)
  then show ?thesis
    using frame_fields(2) [OF triggerWebhook_frame] assms
    by (simp add: handlePaymentIntentCreated_def distinct_payment_replace del: map_append)
next
  case (PaymentCompleted pid pyr m amt fee ts')
  then show ?thesis
    using frame_fields(2) [OF triggerWebhook_frame] assms
    by (simp add: handlePaymentCompleted_def payment_ids_update)
next
  case (PaymentRefunded pid m pyr amt ts')
  then show ?thesis
    using frame_fields(2) [OF triggerWebhook_frame] assms
    by (simp add: handlePaymentRefunded_def Let_def set_status_ids split: option.splits)
next
  case (PaymentExpired pid ts')
  then show ?thesis
    using frame_fields(2) [OF triggerWebhook_frame] assms
    by (simp add: handlePaymentExpired_def Let_def set_status_ids split: option.splits)
next
  case (PaymentCancelled pid m ts')
  then show ?thesis
    using frame_fields(2) [OF triggerWebhook_frame] assms
    by (simp add: handlePaymentCancelled_def set_status_ids)
qed (use assms in \<open>simp_all add: handleMerchantRegistered_def handleMerchantDeactivated_def
      handleMerchantReactivated_def\<close>)

text \<open>
  Claim C4, as stated, fails: a \<open>PaymentIntentCreated\<close> event for a payment id whose
  row is \<open>Completed\<close> with a payer replaces the row by a \<open>Pending\<close> one whose payer is
  null.
\<close>

theorem payment_row_replaced_counterexample:
  "getPayment ''0xP'' (ex_db True [ex_merchant True 100] [ex_payment Completed (Some ''0xC'')] []) =
     Some (ex_payment Completed (Some ''0xC''))
   \<and> getPayment ''0xP''
       (snd (handlePaymentIntentCreated (ex_env (Response 200)) ''0xP'' ''0xM'' ''0xT'' 100 5000
               100 ''0xH'' 900
               (ex_db True [ex_merchant True 100] [ex_payment Completed (Some ''0xC'')] []))) =
     Some (ex_payment Pending None)
   \<and> ex_payment Pending None \<noteq> ex_payment Completed (Some ''0xC'')
   \<and> payer (ex_payment Completed (Some ''0xC'')) = Some ''0xC''
   \<and> payer (ex_payment Pending None) = None"
  by (simp add: getPayment_def handlePaymentIntentCreated_def ex_db_def ex_merchant_def
      ex_payment_def frame_fields(2) [OF triggerWebhook_frame])

text \<open>
  Claim C4, amended. For every payment id there is at most one row: every handler
  keeps the payment ids of the table distinct. Handling a \<open>PaymentIntentCreated\<close>
  event that the foreign-key check does not reject writes a \<open>Pending\<close> row with
  payer, paidAt and platformFee null, replacing any row that already has the payment
  id (a rejected event changes nothing); the row's expiry is
  \<^verbatim>\<open>Number(args.expiryTimestamp)\<close>, the event's value below \<open>2^53\<close> and the nearest
  double above. Handling \<open>PaymentCompleted\<close> sets status, payer, paidAt (as
  \<^verbatim>\<open>Number(args.timestamp)\<close>) and platformFee from the event on the row with that
  payment id, if there is one, whatever its status, overwriting earlier values. Both
  leave the rows of every other payment id as they were.
\<close>

theorem payment_rows_written:
  "(distinct (map payment_id (payment_intents d)) \<longrightarrow>
      distinct (map payment_id (payment_intents (snd (dispatch e ev bn tx ts d)))))
   \<and> (\<not> (foreign_keys d \<and> m \<notin> set (map address (merchants d))) \<longrightarrow>
        getPayment pid (snd (handlePaymentIntentCreated e pid m tok amt expiry bn tx ts d)) =
          Some \<lparr> payment_id = pid, merchant = m, token_address = tok, amount = amt,
                 expiry_timestamp = Number expiry, status = Pending, created_at = ts,
                 payer = None, paid_at = None, platform_fee = None,
                 block_number = bn, transaction_hash = tx \<rparr>
      \<and> (\<forall>q. q \<noteq> pid \<longrightarrow>
            getPayment q (snd (handlePaymentIntentCreated e pid m tok amt expiry bn tx ts d)) =
            getPayment q d))
   \<and> (foreign_keys d \<and> m \<notin> set (map address (merchants d)) \<longrightarrow>
        handlePaymentIntentCreated e pid m tok amt expiry bn tx ts d =
          (Some SqliteConstraintError, d))
   \<and> getPayment pid (snd (handlePaymentCompleted e pid pyr m amt fee paidTs d)) =
       map_option (\<lambda>r. r\<lparr> status := Completed, payer := Some pyr,
                           paid_at := Some (Number paidTs), platform_fee := Some fee \<rparr>)
         (getPayment pid d)
   \<and> (\<forall>q. q \<noteq> pid \<longrightarrow>
        getPayment q (snd (handlePaymentCompleted e pid pyr m amt fee paidTs d)) =
        getPayment q d)
   \<and> (expiry < 2 ^ 53 \<longrightarrow> Number expiry = int expiry)
   \<and> Number 9007199254740993 = 9007199254740992"
proof -
  have other: "find (\<lambda>r. payment_id r = q)
        (map (\<lambda>r. if payment_id r = pid then f r else r) rows) =
      find (\<lambda>r. payment_id r = q) rows"
    if "q \<noteq> pid" "\<And>r. payment_id (f r) = payment_id r"
    for q f and rows :: "payment_row list"
    using that by (induction rows) auto
  show ?thesis
    using dispatch_payment_ids_distinct [of d e ev bn tx ts]
    by (simp add: getPayment_def handlePaymentIntentCreated_def handlePaymentCompleted_def
        frame_fields(2) [OF triggerWebhook_frame] find_payment_replace_new
        find_payment_replace_other find_payment_update other Number_exact Number_rounds)
qed

theorem payment_rows_written_witness:
  "getPayment ''0xP''
     (snd (handlePaymentCompleted (ex_env (Response 200)) ''0xP'' ''0xD'' ''0xM'' 100 2 960
        (ex_db True [ex_merchant True 100] [ex_payment Completed (Some ''0xC'')] []))) =
     Some ((ex_payment Completed (Some ''0xC''))
            \<lparr> payer := Some ''0xD'', paid_at := Some 960, platform_fee := Some 2 \<rparr>)
   \<and> getPayment ''0xQ''
     (snd (handlePaymentCompleted (ex_env (Response 200)) ''0xP'' ''0xD'' ''0xM'' 100 2 960
        (ex_db True [ex_merchant True 100] [ex_payment Completed (Some ''0xC'')] []))) = None
   \<and> handlePaymentIntentCreated (ex_env (Response 200)) ''0xP'' ''0xZ'' ''0xT'' 100 5000
        100 ''0xH'' 900
        (ex_db True [ex_merchant True 100] [ex_payment Completed (Some ''0xC'')] []) =
       (Some SqliteConstraintError,
        ex_db True [ex_merchant True 100] [ex_payment Completed (Some ''0xC'')] [])
   \<and> getPayment ''0xP''
     (snd (handlePaymentIntentCreated (ex_env (Response 200)) ''0xP'' ''0xM'' ''0xT'' 100 5000
        100 ''0xH'' 900
        (ex_db True [ex_merchant True 100] [ex_payment Completed (Some ''0xC'')] []))) =
     Some (ex_payment Pending None)
   \<and> getPayment ''0xP''
     (snd (handlePaymentIntentCreated (ex_env (Response 200)) ''0xP'' ''0xM'' ''0xT'' 100
        9007199254740993 100 ''0xH'' 900
        (ex_db True [ex_merchant True 100] [ex_payment Completed (Some ''0xC'')] []))) =
     Some ((ex_payment Pending None) \<lparr> expiry_timestamp := 9007199254740992 \<rparr>)"
proof -
  let ?d = "ex_db True [ex_merchant True 100] [ex_payment Completed (Some ''0xC'')] []"
  have a: "getPayment ''0xP'' ?d = Some (ex_payment Completed (Some ''0xC''))"
    "getPayment ''0xQ'' ?d = None"
    by (simp_all add: getPayment_def ex_db_def ex_payment_def)
  have b: "foreign_keys ?d" "''0xZ'' \<notin> set (map address (merchants ?d))"
    "''0xM'' \<in> set (map address (merchants ?d))" "''0xQ'' \<noteq> ''0xP''"
    by (simp_all add: ex_db_def ex_merchant_def)
  note w1 = payment_rows_written [where d = ?d and pid = "''0xP''" and m = "''0xZ''"
        and e = "ex_env (Response 200)" and pyr = "''0xD''" and fee = 2 and ts = 900
        and paidTs = 960 and tok = "''0xT''" and amt = 100 and expiry = 5000 and bn = 100
        and tx = "''0xH''"]
  note w2 = payment_rows_written [where d = ?d and pid = "''0xP''" and m = "''0xM''"
        and e = "ex_env (Response 200)" and pyr = "''0xD''" and fee = 2 and ts = 900
        and paidTs = 960 and tok = "''0xT''" and amt = 100 and expiry = 5000 and bn = 100
        and tx = "''0xH''"]
  note w3 = payment_rows_written [where d = ?d and pid = "''0xP''" and m = "''0xM''"
        and e = "ex_env (Response 200)" and pyr = "''0xD''" and fee = 2 and ts = 900
        and paidTs = 960 and tok = "''0xT''" and amt = 100 and expiry = 9007199254740993
        and bn = 100 and tx = "''0xH''"]
  show ?thesis
    using w1 w2 w3 a b
    by (simp add: ex_payment_def)
qed

section \<open>Lifting a property of the database through a poll pass\<close>








section \<open>The checkpoint\<close>
















section \<open>Replay of a block range\<close>

text \<open>
  Claim C2 on a concrete run. Merchant \<open>0xM\<close> has a total of 0 and the checkpoint is
  100. A pass over blocks 101 to 2500 handles the one \<open>PaymentCompleted\<close> of 100 in its
  first batch and fails in its second: the total is 100 and the checkpoint still 100.
  The next pass succeeds, handles the same event again, and the total is 200, where
  a single successful pass gives 100.
\<close>

theorem replay_doubles_merchant_total:
  "map total_payments_received (merchants (ex_indexed 0)) = [SqlInteger 0]
   \<and> map total_payments_received (merchants (syncEvents (ex_chain False) 0 (ex_indexed 0))) =
       [SqlInteger 100]
   \<and> indexer_state (syncEvents (ex_chain False) 0 (ex_indexed 0)) = Some 100
   \<and> map total_payments_received
       (merchants (syncEvents (ex_chain True) 0 (syncEvents (ex_chain False) 0 (ex_indexed 0)))) =
       [SqlInteger 200]
   \<and> map total_payments_received (merchants (syncEvents (ex_chain True) 0 (ex_indexed 0))) =
       [SqlInteger 100]"
  by (simp add: syncEvents_def sync_from_def ex_chain_def ex_indexed_def ex_db_def scan_start_def
      getLastIndexedBlock_def sync_batches.simps processBlockRange_def process_log_def
      ex_log_def handleEvent_def storeEventLog_def handlePaymentCompleted_def
      frame_fields [OF triggerWebhook_frame] ex_merchant_def ex_payment_def sqlite_add_def cast_integer_def
      INT64_MAX_def updateLastIndexedBlock_def Let_def)

section \<open>Delivery rows across operations\<close>


lemma map_if_id: "map (\<lambda>r. if wd_id r = i then r else r) rows = rows"
  by simp



















end
